theory Spec2Isabelle
  imports Main
begin

section \<open>The Google results scraper (scraper.py)\<close>

text \<open>
  The program drives a browser through Selenium, reads the result containers of a
  search page and writes the collected records to a CSV file through pandas. The
  browser, the operating system and the two libraries are outside the program, so
  their answers are data of the model: a \<open>browser\<close> says what every driver call
  returns or raises, and the \<open>world\<close> holds what the process has printed, which
  driver commands it has issued and what the files contain.

  Exceptions are values. Every constructor of \<open>exn\<close> stands for a subclass of
  Python's \<open>Exception\<close>; \<open>NoSuchElementException\<close> is a subclass of
  \<open>WebDriverException\<close>, which here stands for every other Selenium error
  (a stale element, a dead session, a timeout). Asynchronous interrupts
  (\<open>KeyboardInterrupt\<close>, \<open>SystemExit\<close>) are not part of the model, and
  neither are the fixed two-second sleeps.
\<close>

subsection \<open>Exceptions, output and the outside world\<close>

datatype exn =
    NoSuchElementException
  | WebDriverException
  | ValueError
  | OSError
  | OtherException

text \<open>
  The lines the program prints, one constructor for each \<open>print\<close> of the source
  and for the two prompts of \<open>input\<close>.
\<close>

datatype msg =
    Error_WebDriver_init exn
  | Info_Starting
  | Info_Found nat
  | Warning_Missing_element
  | Error_Scraping exn
  | Info_Completed
  | Warning_No_results
  | Info_Saved string
  | Error_Save exn
  | Prompt_query
  | Prompt_scrolls
  | Warning_Invalid_scrolls

text \<open>
  What the process does to the outside, in the order it does it: a line on standard
  output, a navigation, an END key sent to the page body, the end of the driver
  session, a call of pandas' \<open>to_csv\<close> on a path.
\<close>

datatype event =
    Print msg
  | Get string
  | Send_keys_END
  | Quit
  | To_csv string

text \<open>
  A file is the list of its CSV rows. \<open>open_error\<close> is the operating system's
  answer when a path is opened for writing (\<open>None\<close>: it opens).
\<close>

record world =
  trace :: "event list"
  files :: "string \<rightharpoonup> string list"
  open_error :: "string \<Rightarrow> exn option"

definition emit :: "event \<Rightarrow> world \<Rightarrow> world" where
  "emit ev w = w\<lparr>trace := trace w @ [ev]\<rparr>"

subsection \<open>The browser as the driver shows it\<close>

text \<open>
  A \<open>WebElement\<close> answers \<open>.text\<close> and \<open>.get_attribute(name)\<close>; the attribute
  may be absent (\<open>None\<close> in Python). A result container answers
  \<open>find_element(By.CSS_SELECTOR, selector)\<close>, raising
  \<open>NoSuchElementException\<close> when nothing matches. Every call may also fail with
  another exception.
\<close>

record element =
  elem_text :: "exn + string"
  get_attribute :: "string \<Rightarrow> exn + string option"

record container =
  find_element :: "string \<Rightarrow> exn + element"

text \<open>
  The driver: \<open>get url\<close>, the lookup of the page body and the key press of the
  \<open>i\<close>-th scroll, and \<open>find_elements(By.CSS_SELECTOR, selector)\<close>.
\<close>

record browser =
  get :: "string \<Rightarrow> exn option"
  find_body :: "nat \<Rightarrow> exn option"
  send_keys_END :: "nat \<Rightarrow> exn option"
  find_elements :: "string \<Rightarrow> exn + container list"

subsection \<open>The scraper object\<close>

text \<open>The dictionary appended for a result: its three keys, in the order of the source.\<close>

record search_result =
  Title :: string
  URL :: string
  Description :: string

record scraper =
  query :: string
  num_scrolls :: int
  results :: "search_result list"
  driver :: browser

text \<open>
  \<open>_init_driver\<close>: the outcome of \<open>webdriver.Chrome(...)\<close> is the argument; a
  \<open>WebDriverException\<close> is printed and raised again, any other exception passes
  through. The Chrome options do not matter to what follows and are left out.
\<close>

definition init_driver :: "exn + browser \<Rightarrow> world \<Rightarrow> (exn + browser) \<times> world" where
  "init_driver chrome w =
     (case chrome of
        Inr d \<Rightarrow> (Inr d, w)
      | Inl e \<Rightarrow>
          if e = WebDriverException \<or> e = NoSuchElementException
          then (Inl e, emit (Print (Error_WebDriver_init e)) w)
          else (Inl e, w))"

definition GoogleScraper ::
  "exn + browser \<Rightarrow> string \<Rightarrow> int \<Rightarrow> world \<Rightarrow> (exn + scraper) \<times> world" where
  "GoogleScraper chrome q n w =
     (case init_driver chrome w of
        (Inl e, w') \<Rightarrow> (Inl e, w')
      | (Inr d, w') \<Rightarrow>
          (Inr \<lparr>query = q, num_scrolls = n, results = [], driver = d\<rparr>, w'))"

subsection \<open>scrape\<close>

text \<open>
  The body of the inner \<open>try\<close> (lines 70 to 79), before its handler: the three
  lookups, then the three reads, then the test \<open>if title and url\<close>. A string is
  true when it is not empty and \<open>None\<close> is false. \<open>Inr None\<close> is a container read
  in full that fails the test; \<open>Inl e\<close> is the first exception raised.
\<close>

definition read_result :: "container \<Rightarrow> exn + search_result option" where
  "read_result result =
     (case find_element result ''h3'' of Inl e \<Rightarrow> Inl e | Inr title_element \<Rightarrow>
     (case find_element result ''a'' of Inl e \<Rightarrow> Inl e | Inr url_element \<Rightarrow>
     (case find_element result ''div.VwiC3b'' of Inl e \<Rightarrow> Inl e | Inr description_element \<Rightarrow>
     (case elem_text title_element of Inl e \<Rightarrow> Inl e | Inr title \<Rightarrow>
     (case get_attribute url_element ''href'' of Inl e \<Rightarrow> Inl e | Inr url \<Rightarrow>
     (case elem_text description_element of Inl e \<Rightarrow> Inl e | Inr description \<Rightarrow>
     (case url of
        None \<Rightarrow> Inr None
      | Some u \<Rightarrow>
          if title \<noteq> [] \<and> u \<noteq> []
          then Inr (Some \<lparr>Title = title, URL = u, Description = description\<rparr>)
          else Inr None)))))))"

text \<open>
  One turn of the loop over the containers, with the handler of the inner \<open>try\<close>:
  a \<open>NoSuchElementException\<close> is printed as a warning and the turn ends normally,
  any other exception leaves the loop.
\<close>

definition scan_one :: "container \<Rightarrow> scraper \<Rightarrow> world \<Rightarrow> exn option \<times> scraper \<times> world" where
  "scan_one result self w =
     (case read_result result of
        Inr (Some r) \<Rightarrow> (None, self\<lparr>results := results self @ [r]\<rparr>, w)
      | Inr None \<Rightarrow> (None, self, w)
      | Inl e \<Rightarrow>
          if e = NoSuchElementException
          then (None, self, emit (Print Warning_Missing_element) w)
          else (Some e, self, w))"

fun scan :: "container list \<Rightarrow> scraper \<Rightarrow> world \<Rightarrow> exn option \<times> scraper \<times> world" where
  "scan [] self w = (None, self, w)"
| "scan (result # rest) self w =
     (case scan_one result self w of
        (None, self', w') \<Rightarrow> scan rest self' w'
      | (Some e, self', w') \<Rightarrow> (Some e, self', w'))"

text \<open>The scroll loop over \<open>range(self.num_scrolls)\<close>; it stops at the first exception.\<close>

fun scroll :: "browser \<Rightarrow> nat list \<Rightarrow> world \<Rightarrow> exn option \<times> world" where
  "scroll d [] w = (None, w)"
| "scroll d (i # rest) w =
     (case find_body d i of
        Some e \<Rightarrow> (Some e, w)
      | None \<Rightarrow>
          (case send_keys_END d i of
             Some e \<Rightarrow> (Some e, emit Send_keys_END w)
           | None \<Rightarrow> scroll d rest (emit Send_keys_END w)))"

text \<open>The f-string of line 56.\<close>

definition search_url :: "string \<Rightarrow> string" where
  "search_url q = ''https://www.google.com/search?q='' @ q"

text \<open>The body of the outer \<open>try\<close> (lines 56 to 81).\<close>

definition scrape_body :: "scraper \<Rightarrow> world \<Rightarrow> exn option \<times> scraper \<times> world" where
  "scrape_body self w =
     (let w1 = emit (Get (search_url (query self))) w in
      case get (driver self) (search_url (query self)) of
        Some e \<Rightarrow> (Some e, self, w1)
      | None \<Rightarrow>
          (case scroll (driver self) [0..<nat (num_scrolls self)] w1 of
             (Some e, w2) \<Rightarrow> (Some e, self, w2)
           | (None, w2) \<Rightarrow>
               (case find_elements (driver self) ''div.g'' of
                  Inl e \<Rightarrow> (Some e, self, w2)
                | Inr search_results \<Rightarrow>
                    scan search_results self
                      (emit (Print (Info_Found (length search_results))) w2))))"

text \<open>
  \<open>scrape\<close>: \<open>except Exception\<close> takes every exception of the body and prints it;
  the \<open>finally\<close> block ends the driver session and prints the last line. Chrome's
  \<open>quit\<close> swallows the errors of the quit command itself, so it is an event that
  cannot fail. The first component of the result is the exception \<open>scrape\<close> lets
  through to its caller.
\<close>

definition scrape :: "scraper \<Rightarrow> world \<Rightarrow> exn option \<times> scraper \<times> world" where
  "scrape self w =
     (case scrape_body self (emit (Print Info_Starting) w) of
        (raised, self', w') \<Rightarrow>
          let w'' = (case raised of
                       None \<Rightarrow> w'
                     | Some e \<Rightarrow> emit (Print (Error_Scraping e)) w')
          in (None, self', emit (Print Info_Completed) (emit Quit w'')))"

subsection \<open>save_to_csv\<close>

text \<open>
  Modelled from the spec: \<open>pd.DataFrame\<close> and \<open>DataFrame.to_csv\<close> belong to
  pandas, which is not under src/. The spec gives the output as a CSV file with the
  header row \<open>Title,URL,Description\<close> and one row for each record. So a frame
  built from a list of dictionaries has the dictionaries' keys as columns and one
  row for each dictionary, and \<open>to_csv(path, index=False)\<close> opens the path and
  writes the column names as the first row and then one row for each row of the
  frame, fields separated by commas and quoted only where they hold a comma, a
  double quote or a line break (a double quote is doubled). A path that cannot be
  opened raises and leaves the file as it was; a write that fails half way is not
  modelled.
\<close>

record data_frame =
  columns :: "string list"
  data_rows :: "string list list"

definition DataFrame :: "search_result list \<Rightarrow> data_frame" where
  "DataFrame rs =
     \<lparr>columns = [''Title'', ''URL'', ''Description''],
      data_rows = map (\<lambda>r. [Title r, URL r, Description r]) rs\<rparr>"

definition needs_quoting :: "string \<Rightarrow> bool" where
  "needs_quoting f =
     list_ex (\<lambda>c. c = CHR '','' \<or> c = CHR 0x22 \<or> c = CHR 0x0A \<or> c = CHR 0x0D) f"

definition csv_field :: "string \<Rightarrow> string" where
  "csv_field f =
     (if needs_quoting f
      then CHR 0x22 # concat (map (\<lambda>c. if c = CHR 0x22 then [c, c] else [c]) f) @ [CHR 0x22]
      else f)"

fun join_commas :: "string list \<Rightarrow> string" where
  "join_commas [] = []"
| "join_commas [f] = f"
| "join_commas (f # g # fs) = f @ CHR '','' # join_commas (g # fs)"

definition csv_row :: "string list \<Rightarrow> string" where
  "csv_row fs = join_commas (map csv_field fs)"

definition to_csv :: "data_frame \<Rightarrow> string \<Rightarrow> world \<Rightarrow> exn option \<times> world" where
  "to_csv df path w =
     (let w1 = emit (To_csv path) w in
      case open_error w1 path of
        Some e \<Rightarrow> (Some e, w1)
      | None \<Rightarrow>
          (None, w1\<lparr>files := (files w1)(path \<mapsto> csv_row (columns df) # map csv_row (data_rows df))\<rparr>))"

text \<open>
  \<open>save_to_csv\<close> (lines 89 to 104): the guard on an empty list, then the
  \<open>try\<close> whose handler takes every exception. The first component of the result
  is the exception let through to the caller.
\<close>

definition save_to_csv :: "string \<Rightarrow> scraper \<Rightarrow> world \<Rightarrow> exn option \<times> scraper \<times> world" where
  "save_to_csv file_name self w =
     (if results self = []
      then (None, self, emit (Print Warning_No_results) w)
      else
        (case to_csv (DataFrame (results self)) file_name w of
           (None, w') \<Rightarrow> (None, self, emit (Print (Info_Saved file_name)) w')
         | (Some e, w') \<Rightarrow> (None, self, emit (Print (Error_Save e)) w')))"

subsection \<open>The command line\<close>

text \<open>
  Python's \<open>str.strip()\<close> and \<open>int(str)\<close>. A character is a code point
  below 256; strings with code points beyond that are outside the model.
  \<open>str.strip()\<close> removes the characters for which \<open>str.isspace\<close> holds: 9
  to 13, 28 to 32, 133 and 160. \<open>int\<close> skips less at both ends: 9 to 13, 32,
  133 and 160, but not the separators 28 to 31. After that \<open>int\<close> takes one
  optional sign and then decimal digits, where single underscores may stand
  between digits; anything else is a \<open>ValueError\<close>. \<open>max_str_digits\<close> is the
  interpreter's limit on the number of digits (\<open>sys.get_int_max_str_digits()\<close>,
  4300 by default since Python 3.11, 0 for no limit): a longer literal is a
  \<open>ValueError\<close> too.
\<close>

definition isspace :: "char \<Rightarrow> bool" where
  "isspace c =
     (let n = (of_char c :: nat)
      in (9 \<le> n \<and> n \<le> 13) \<or> (28 \<le> n \<and> n \<le> 32) \<or> n = 133 \<or> n = 160)"

definition strip :: "string \<Rightarrow> string" where
  "strip s = rev (dropWhile isspace (rev (dropWhile isspace s)))"

definition int_space :: "char \<Rightarrow> bool" where
  "int_space c =
     (let n = (of_char c :: nat)
      in (9 \<le> n \<and> n \<le> 13) \<or> n = 32 \<or> n = 133 \<or> n = 160)"

definition isdigit :: "char \<Rightarrow> bool" where
  "isdigit c = (48 \<le> (of_char c :: nat) \<and> (of_char c :: nat) \<le> 57)"

definition digit_value :: "char \<Rightarrow> int" where
  "digit_value c = int (of_char c) - 48"

text \<open>The digits after the first one, with the value read so far.\<close>

fun digits :: "int \<Rightarrow> string \<Rightarrow> int option" where
  "digits acc [] = Some acc"
| "digits acc [c] = (if isdigit c then Some (10 * acc + digit_value c) else None)"
| "digits acc (c # d # cs) =
     (if isdigit c then digits (10 * acc + digit_value c) (d # cs)
      else if c = CHR ''_'' \<and> isdigit d then digits (10 * acc + digit_value d) cs
      else None)"

definition unsigned :: "string \<Rightarrow> int option" where
  "unsigned s =
     (case s of
        [] \<Rightarrow> None
      | c # cs \<Rightarrow> if isdigit c then digits (digit_value c) cs else None)"

definition py_int :: "nat \<Rightarrow> string \<Rightarrow> exn + int" where
  "py_int max_digits s =
     (let t = rev (dropWhile int_space (rev (dropWhile int_space s)));
          negative = (t \<noteq> [] \<and> hd t = CHR ''-'');
          body = (if t \<noteq> [] \<and> (hd t = CHR ''-'' \<or> hd t = CHR ''+'') then tl t else t)
      in case unsigned body of
           None \<Rightarrow> Inl ValueError
         | Some v \<Rightarrow>
             if 0 < max_digits \<and> max_digits < length (filter isdigit body)
             then Inl ValueError
             else Inr (if negative then - v else v))"

text \<open>
  Lines 108 to 112, given the line typed at the second prompt:
  \<open>int(input(...).strip() or 2)\<close> under \<open>except ValueError\<close>. An empty string is
  false, so \<open>or\<close> yields the integer 2 and \<open>int(2)\<close> is 2.
\<close>

definition read_num_scrolls :: "nat \<Rightarrow> string \<Rightarrow> world \<Rightarrow> (exn + int) \<times> world" where
  "read_num_scrolls max_digits line w =
     (let w1 = emit (Print Prompt_scrolls) w;
          s = strip line
      in case (if s \<noteq> [] then py_int max_digits s else Inr 2) of
           Inr n \<Rightarrow> (Inr n, w1)
         | Inl e \<Rightarrow>
             if e = ValueError
             then (Inr 2, emit (Print Warning_Invalid_scrolls) w1)
             else (Inl e, w1))"

text \<open>
  The script (lines 106 to 119). \<open>env\<close> is what the run is given: the two lines
  typed, the interpreter's digit limit and what launching Chrome returns. The
  result is the exception that ends the script, if any, the scraper object as the
  script leaves it, if it was built, and the world.
\<close>

record env =
  query_line :: string
  scrolls_line :: string
  max_str_digits :: nat
  chrome :: "exn + browser"

definition main :: "env \<Rightarrow> world \<Rightarrow> exn option \<times> scraper option \<times> world" where
  "main env w =
     (let search_query = strip (query_line env) in
      case read_num_scrolls (max_str_digits env) (scrolls_line env) (emit (Print Prompt_query) w) of
        (Inl e, w1) \<Rightarrow> (Some e, None, w1)
      | (Inr n, w1) \<Rightarrow>
          (case GoogleScraper (chrome env) search_query n w1 of
             (Inl e, w2) \<Rightarrow> (Some e, None, w2)
           | (Inr scraper, w2) \<Rightarrow>
               (case scrape scraper w2 of
                  (Some e, scraper', w3) \<Rightarrow> (Some e, Some scraper', w3)
                | (None, scraper', w3) \<Rightarrow>
                    (case save_to_csv ''google_search_results.csv'' scraper' w3 of
                       (raised, scraper'', w4) \<Rightarrow> (raised, Some scraper'', w4)))))"

subsection \<open>Notions used in the properties\<close>

text \<open>
  The URLs the process has navigated to, in order.
\<close>

fun navigations :: "event list \<Rightarrow> string list" where
  "navigations [] = []"
| "navigations (Get url # evs) = url # navigations evs"
| "navigations (ev # evs) = navigations evs"

text \<open>
  The record a container yields when the loop reads it, if it yields one, and
  whether reading it ends the loop: an exception other than
  \<open>NoSuchElementException\<close> leaves the loop and no later container is read.
\<close>

definition record_of :: "container \<Rightarrow> search_result option" where
  "record_of c = (case read_result c of Inr (Some r) \<Rightarrow> Some r | Inr None \<Rightarrow> None | Inl e \<Rightarrow> None)"

definition aborts :: "container \<Rightarrow> bool" where
  "aborts c = (case read_result c of Inl e \<Rightarrow> e \<noteq> NoSuchElementException | Inr r \<Rightarrow> False)"

text \<open>
  The Title text and the URL attribute of a container as a reader of the page
  sees them, whatever else the container holds: the text of its \<open>h3\<close> and the
  \<open>href\<close> of its \<open>a\<close>, empty when the element or the attribute is
  absent or cannot be read.
\<close>

definition title_text :: "container \<Rightarrow> string" where
  "title_text c =
     (case find_element c ''h3'' of
        Inl e \<Rightarrow> []
      | Inr el \<Rightarrow> (case elem_text el of Inl e \<Rightarrow> [] | Inr t \<Rightarrow> t))"

definition url_attribute :: "container \<Rightarrow> string" where
  "url_attribute c =
     (case find_element c ''a'' of
        Inl e \<Rightarrow> []
      | Inr el \<Rightarrow>
          (case get_attribute el ''href'' of Inl e \<Rightarrow> [] | Inr None \<Rightarrow> [] | Inr (Some u) \<Rightarrow> u))"

subsection \<open>Example pages\<close>

text \<open>
  Elements, containers, a page that loads and scrolls without error, a world with
  no files and one where no path can be opened.
\<close>

definition text_element :: "string \<Rightarrow> element" where
  "text_element t = \<lparr>elem_text = Inr t, get_attribute = (\<lambda>name. Inr None)\<rparr>"

definition link_element :: "string \<Rightarrow> element" where
  "link_element u =
     \<lparr>elem_text = Inr [], get_attribute = (\<lambda>name. if name = ''href'' then Inr (Some u) else Inr None)\<rparr>"

definition result_container :: "exn + element \<Rightarrow> exn + element \<Rightarrow> exn + element \<Rightarrow> container" where
  "result_container h a d =
     \<lparr>find_element = (\<lambda>selector.
        if selector = ''h3'' then h
        else if selector = ''a'' then a
        else if selector = ''div.VwiC3b'' then d
        else Inl NoSuchElementException)\<rparr>"

definition page :: "container list \<Rightarrow> browser" where
  "page cs =
     \<lparr>get = (\<lambda>url. None), find_body = (\<lambda>i. None), send_keys_END = (\<lambda>i. None),
      find_elements = (\<lambda>selector. if selector = ''div.g'' then Inr cs else Inr [])\<rparr>"

definition fresh :: world where
  "fresh = \<lparr>trace = [], files = Map.empty, open_error = (\<lambda>path. None)\<rparr>"

definition read_only :: world where
  "read_only = \<lparr>trace = [], files = Map.empty, open_error = (\<lambda>path. Some OSError)\<rparr>"

text \<open>
  A complete result, a result with no description element, a result with an empty
  description, and a result whose title lookup fails with a stale element.
\<close>

definition full_result :: container where
  "full_result = result_container (Inr (text_element ''Example Domain''))
     (Inr (link_element ''https://example.com/'')) (Inr (text_element ''An example, with a comma''))"

definition no_snippet :: container where
  "no_snippet = result_container (Inr (text_element ''Isabelle''))
     (Inr (link_element ''https://isabelle.in.tum.de/'')) (Inl NoSuchElementException)"

definition isabelle_result :: container where
  "isabelle_result = result_container (Inr (text_element ''Isabelle''))
     (Inr (link_element ''https://isabelle.in.tum.de/'')) (Inr (text_element []))"

definition stale :: container where
  "stale = result_container (Inl WebDriverException)
     (Inr (link_element ''https://example.org/'')) (Inr (text_element ''gone''))"

definition example_record :: search_result where
  "example_record = \<lparr>Title = ''Example Domain'', URL = ''https://example.com/'',
     Description = ''An example, with a comma''\<rparr>"

definition isabelle_record :: search_result where
  "isabelle_record = \<lparr>Title = ''Isabelle'', URL = ''https://isabelle.in.tum.de/'', Description = []\<rparr>"

definition example_scraper :: "container list \<Rightarrow> scraper" where
  "example_scraper cs = \<lparr>query = ''a b&c#d'', num_scrolls = 2, results = [], driver = page cs\<rparr>"

definition saved_scraper :: scraper where
  "saved_scraper = \<lparr>query = ''example'', num_scrolls = 2, results = [example_record], driver = page []\<rparr>"

definition example_env :: env where
  "example_env =
     \<lparr>query_line = '' isabelle hol '', scrolls_line = ''two'', max_str_digits = 4300,
      chrome = Inr (page [no_snippet, full_result])\<rparr>"

lemmas example_defs = text_element_def link_element_def result_container_def page_def fresh_def
  read_only_def full_result_def no_snippet_def example_record_def example_scraper_def

section \<open>Properties\<close>

subsection \<open>Traces\<close>

lemma trace_emit [simp]: "trace (emit ev w) = trace w @ [ev]"
  by (simp add: emit_def)

lemma files_emit [simp]: "files (emit ev w) = files w"
  by (simp add: emit_def)

lemma open_error_emit [simp]: "open_error (emit ev w) = open_error w"
  by (simp add: emit_def)

lemma navigations_append: "navigations (xs @ ys) = navigations xs @ navigations ys"
  by (induction xs rule: navigations.induct) simp_all

lemma navigations_none: "\<forall>ev \<in> set evs. \<forall>url. ev \<noteq> Get url \<Longrightarrow> navigations evs = []"
  by (induction evs rule: navigations.induct) auto

lemma scan_one_trace:
  "trace (snd (snd (scan_one c self w))) = trace w \<or>
   trace (snd (snd (scan_one c self w))) = trace w @ [Print Warning_Missing_element]"
  by (simp add: scan_one_def split: sum.splits option.splits)

lemma scan_trace:
  "\<exists>evs. trace (snd (snd (scan cs self w))) = trace w @ evs \<and> set evs \<subseteq> {Print Warning_Missing_element}"
proof (induction cs arbitrary: self w)
  case Nil
  show ?case by simp
next
  case (Cons c cs)
  obtain r self' w' where one: "scan_one c self w = (r, self', w')"
    by (cases "scan_one c self w") auto
  from scan_one_trace [of c self w] one
  have tr: "trace w' = trace w \<or> trace w' = trace w @ [Print Warning_Missing_element]"
    by simp
  show ?case
  proof (cases r)
    case None
    from Cons.IH [of self' w'] obtain evs where
      "trace (snd (snd (scan cs self' w'))) = trace w' @ evs" "set evs \<subseteq> {Print Warning_Missing_element}"
      by blast
    with tr one None show ?thesis
      by auto
  next
    case (Some e)
    with tr one show ?thesis by auto
  qed
qed

lemma scroll_trace:
  "\<exists>evs. trace (snd (scroll d ks w)) = trace w @ evs \<and> set evs \<subseteq> {Send_keys_END}"
proof (induction ks arbitrary: w)
  case Nil
  show ?case by simp
next
  case (Cons k ks)
  show ?case
  proof (cases "find_body d k")
    case (Some e)
    then show ?thesis by simp
  next
    case None
    note body = None
    show ?thesis
    proof (cases "send_keys_END d k")
      case (Some e)
      with body show ?thesis by simp
    next
      case None
      from Cons.IH [of "emit Send_keys_END w"] obtain evs where
        "trace (snd (scroll d ks (emit Send_keys_END w))) = trace (emit Send_keys_END w) @ evs"
        "set evs \<subseteq> {Send_keys_END}"
        by blast
      with body None show ?thesis
        by (intro exI [of _ "Send_keys_END # evs"]) simp
    qed
  qed
qed

lemma scroll_succeeds:
  "\<forall>i \<in> set ks. find_body d i = None \<and> send_keys_END d i = None \<Longrightarrow> fst (scroll d ks w) = None"
  by (induction ks arbitrary: w) simp_all

lemma scrape_body_trace:
  "\<exists>evs. trace (snd (snd (scrape_body self w))) = trace w @ Get (search_url (query self)) # evs \<and>
         Quit \<notin> set evs \<and> navigations evs = []"
proof (cases "get (driver self) (search_url (query self))")
  case (Some e)
  then show ?thesis by (simp add: scrape_body_def)
next
  case None
  note loaded = None
  let ?w1 = "emit (Get (search_url (query self))) w"
  obtain r w2 where sc: "scroll (driver self) [0..<nat (num_scrolls self)] ?w1 = (r, w2)"
    by (cases "scroll (driver self) [0..<nat (num_scrolls self)] ?w1") auto
  from scroll_trace [of "driver self" "[0..<nat (num_scrolls self)]" ?w1] sc
  obtain evs1 where evs1: "trace w2 = trace ?w1 @ evs1" "set evs1 \<subseteq> {Send_keys_END}"
    by auto
  from evs1(2) have nav1: "navigations evs1 = []" and quit1: "Quit \<notin> set evs1"
    by (auto intro!: navigations_none)
  show ?thesis
  proof (cases r)
    case (Some e)
    with loaded sc evs1 nav1 quit1 show ?thesis
      by (simp add: scrape_body_def)
  next
    case None
    note scrolled = None
    show ?thesis
    proof (cases "find_elements (driver self) ''div.g''")
      case (Inl e)
      with loaded sc scrolled evs1 nav1 quit1 show ?thesis
        by (simp add: scrape_body_def)
    next
      case (Inr cs)
      let ?w3 = "emit (Print (Info_Found (length cs))) w2"
      from scan_trace [of cs self ?w3]
      obtain evs2 where evs2: "trace (snd (snd (scan cs self ?w3))) = trace ?w3 @ evs2"
        "set evs2 \<subseteq> {Print Warning_Missing_element}"
        by blast
      from evs2(2) have nav2: "navigations evs2 = []" and quit2: "Quit \<notin> set evs2"
        by (auto intro!: navigations_none)
      have "trace (snd (snd (scrape_body self w))) =
              trace w @ Get (search_url (query self)) # (evs1 @ Print (Info_Found (length cs)) # evs2)"
        using loaded sc scrolled Inr evs1 evs2 by (simp add: scrape_body_def)
      moreover have "Quit \<notin> set (evs1 @ Print (Info_Found (length cs)) # evs2)"
        using quit1 quit2 by simp
      moreover have "navigations (evs1 @ Print (Info_Found (length cs)) # evs2) = []"
        using nav1 nav2 by (simp add: navigations_append)
      ultimately show ?thesis by blast
    qed
  qed
qed

lemma scrape_trace:
  "\<exists>evs. trace (snd (snd (scrape self w))) =
           trace w @ Print Info_Starting # Get (search_url (query self)) # evs @ [Quit, Print Info_Completed] \<and>
         Quit \<notin> set evs \<and> navigations evs = []"
proof -
  let ?w0 = "emit (Print Info_Starting) w"
  obtain r self' w' where body: "scrape_body self ?w0 = (r, self', w')"
    by (cases "scrape_body self ?w0") auto
  from scrape_body_trace [of self ?w0] body
  obtain evs where evs: "trace w' = trace ?w0 @ Get (search_url (query self)) # evs"
    "Quit \<notin> set evs" "navigations evs = []"
    by auto
  show ?thesis
  proof (cases r)
    case None
    with body evs show ?thesis
      by (simp add: scrape_def)
  next
    case (Some e)
    have "trace (snd (snd (scrape self w))) =
            trace w @ Print Info_Starting # Get (search_url (query self)) #
              (evs @ [Print (Error_Scraping e)]) @ [Quit, Print Info_Completed]"
      using body Some evs by (simp add: scrape_def)
    moreover have "Quit \<notin> set (evs @ [Print (Error_Scraping e)])"
      using evs by simp
    moreover have "navigations (evs @ [Print (Error_Scraping e)]) = []"
      using evs by (simp add: navigations_append)
    ultimately show ?thesis by blast
  qed
qed

subsection \<open>The loop over the result containers\<close>

lemma read_result_Some_iff:
  "read_result c = Inr (Some r) \<longleftrightarrow>
   (\<exists>te ue de.
      find_element c ''h3'' = Inr te \<and> find_element c ''a'' = Inr ue \<and>
      find_element c ''div.VwiC3b'' = Inr de \<and>
      elem_text te = Inr (Title r) \<and> get_attribute ue ''href'' = Inr (Some (URL r)) \<and>
      elem_text de = Inr (Description r) \<and> Title r \<noteq> [] \<and> URL r \<noteq> [])"
  by (cases r) (auto simp: read_result_def split: sum.splits option.splits)

lemma read_result_missing:
  assumes "find_element c ''h3'' = Inl NoSuchElementException \<or>
           (\<exists>te. find_element c ''h3'' = Inr te \<and>
              (find_element c ''a'' = Inl NoSuchElementException \<or>
               (\<exists>ue. find_element c ''a'' = Inr ue \<and>
                  find_element c ''div.VwiC3b'' = Inl NoSuchElementException)))"
  shows "read_result c = Inl NoSuchElementException"
  using assms by (auto simp: read_result_def)

lemma scan_one_results:
  "results (fst (snd (scan_one c self w))) =
     (case read_result c of Inr (Some r) \<Rightarrow> results self @ [r] | Inr None \<Rightarrow> results self | Inl e \<Rightarrow> results self)"
  by (simp add: scan_one_def split: sum.splits option.splits)

lemma scan_results:
  "results (fst (snd (scan cs self w))) =
     results self @ List.map_filter record_of (takeWhile (\<lambda>c. \<not> aborts c) cs)"
proof (induction cs arbitrary: self w)
  case Nil
  show ?case by simp
next
  case (Cons c cs)
  show ?case
    by (cases "read_result c")
       (auto simp: scan_one_def record_of_def aborts_def Cons.IH
             split: option.splits)
qed

text \<open>
  The whole script on a page of two containers, the first without a description,
  with a scroll count that is not a number.
\<close>

lemma header_row: "csv_row [''Title'', ''URL'', ''Description''] = ''Title,URL,Description''"
  by (simp add: csv_row_def csv_field_def needs_quoting_def)

lemma scripted_run:
  "main example_env fresh =
     (None,
      Some \<lparr>query = ''isabelle hol'', num_scrolls = 2, results = [example_record],
            driver = page [no_snippet, full_result]\<rparr>,
      \<lparr>trace = [Print Prompt_query, Print Prompt_scrolls, Print Warning_Invalid_scrolls,
                 Print Info_Starting, Get ''https://www.google.com/search?q=isabelle hol'',
                 Send_keys_END, Send_keys_END, Print (Info_Found 2), Print Warning_Missing_element,
                 Quit, Print Info_Completed,
                 To_csv ''google_search_results.csv'', Print (Info_Saved ''google_search_results.csv'')],
        files = [''google_search_results.csv'' \<mapsto>
                   [''Title,URL,Description'',
                    csv_row [''Example Domain'', ''https://example.com/'', ''An example, with a comma'']]],
        open_error = (\<lambda>path. None)\<rparr>)"
  by (simp add: main_def example_env_def read_num_scrolls_def py_int_def strip_def isspace_def
      int_space_def
      unsigned_def isdigit_def GoogleScraper_def init_driver_def scrape_def scrape_body_def
      search_url_def scan_one_def read_result_def save_to_csv_def to_csv_def DataFrame_def
      header_row emit_def example_defs upt_rec numeral_2_eq_2 Let_def)

subsection \<open>C1: which containers yield a record\<close>

text \<open>
  C1 as stated: for every result container scanned during scrape, a record for
  that container is included in the output collection if and only if both its
  Title text and its URL attribute are non-empty.

  The code reads the description element inside the same \<open>try\<close> as the title and
  the link, before the test on title and URL, so a container with a title and a
  URL but no description element yields no record. What holds: one turn of the loop
  appends the record \<open>r\<close> exactly when the title, link and description elements
  are all found and read, the title text and the \<open>href\<close> are the non-empty
  \<open>Title r\<close> and \<open>URL r\<close>, and the description text is \<open>Description r\<close>.
\<close>

theorem record_appended_iff:
  "(results (fst (snd (scan_one c self w))) = results self @ [r] \<longleftrightarrow>
    (\<exists>te ue de.
       find_element c ''h3'' = Inr te \<and> find_element c ''a'' = Inr ue \<and>
       find_element c ''div.VwiC3b'' = Inr de \<and>
       elem_text te = Inr (Title r) \<and> get_attribute ue ''href'' = Inr (Some (URL r)) \<and>
       elem_text de = Inr (Description r) \<and> Title r \<noteq> [] \<and> URL r \<noteq> []))"
proof -
  have "results (fst (snd (scan_one c self w))) = results self @ [r] \<longleftrightarrow> read_result c = Inr (Some r)"
    by (simp add: scan_one_results split: sum.splits option.splits)
  then show ?thesis
    by (simp only: read_result_Some_iff)
qed

theorem record_appended_iff_witness:
  "results (fst (snd (scan_one full_result (example_scraper []) fresh))) = [example_record]"
  using record_appended_iff [of full_result "example_scraper []" fresh example_record]
  by (simp add: example_defs)

text \<open>
  C1 fails as stated on a page whose only container has the title
  \<open>Isabelle\<close>, the URL \<open>https://isabelle.in.tum.de/\<close> and no description
  element: scrape scans it and collects nothing.
\<close>

theorem title_and_url_without_record:
  "title_text no_snippet = ''Isabelle'' \<and>
   url_attribute no_snippet = ''https://isabelle.in.tum.de/'' \<and>
   find_elements (driver (example_scraper [no_snippet])) ''div.g'' = Inr [no_snippet] \<and>
   results (fst (snd (scrape (example_scraper [no_snippet]) fresh))) = []"
  by (simp add: title_text_def url_attribute_def example_defs scrape_def scrape_body_def
      search_url_def scan_one_def read_result_def upt_rec numeral_2_eq_2)

subsection \<open>C2: a missing sub-field skips the container\<close>

text \<open>
  C2: if any of the three sub-fields (title element, url element, description
  element) is missing from a container, the container is skipped, no record is
  appended for it, and processing continues with the remaining containers.

  The lookups are made in the order \<open>h3\<close>, \<open>a\<close>, \<open>div.VwiC3b\<close> and stop at
  the first that fails; the hypothesis says that this first failure is a missing
  element. The scraper object is unchanged, a warning is printed, and the loop goes
  on with the rest.
\<close>

theorem missing_sub_field_skipped:
  assumes "find_element c ''h3'' = Inl NoSuchElementException \<or>
           (\<exists>te. find_element c ''h3'' = Inr te \<and>
              (find_element c ''a'' = Inl NoSuchElementException \<or>
               (\<exists>ue. find_element c ''a'' = Inr ue \<and>
                  find_element c ''div.VwiC3b'' = Inl NoSuchElementException)))"
  shows "scan_one c self w = (None, self, emit (Print Warning_Missing_element) w) \<and>
         scan (c # rest) self w = scan rest self (emit (Print Warning_Missing_element) w)"
proof -
  from assms have "read_result c = Inl NoSuchElementException"
    by (rule read_result_missing)
  then have "scan_one c self w = (None, self, emit (Print Warning_Missing_element) w)"
    by (simp add: scan_one_def)
  then show ?thesis by simp
qed

theorem missing_sub_field_skipped_witness:
  "scan_one no_snippet (example_scraper []) fresh =
     (None, example_scraper [], emit (Print Warning_Missing_element) fresh) \<and>
   scan (no_snippet # [full_result]) (example_scraper []) fresh =
     scan [full_result] (example_scraper []) (emit (Print Warning_Missing_element) fresh) \<and>
   results (fst (snd (scan [full_result] (example_scraper []) (emit (Print Warning_Missing_element) fresh)))) =
     [example_record]"
proof -
  have missing: "find_element no_snippet ''h3'' = Inl NoSuchElementException \<or>
           (\<exists>te. find_element no_snippet ''h3'' = Inr te \<and>
              (find_element no_snippet ''a'' = Inl NoSuchElementException \<or>
               (\<exists>ue. find_element no_snippet ''a'' = Inr ue \<and>
                  find_element no_snippet ''div.VwiC3b'' = Inl NoSuchElementException)))"
    by (simp add: example_defs)
  have "results (fst (snd (scan [full_result] (example_scraper []) (emit (Print Warning_Missing_element) fresh)))) =
     [example_record]"
    by (simp add: scan_one_def read_result_def example_defs)
  with missing_sub_field_skipped [OF missing, of "example_scraper []" fresh "[full_result]"]
  show ?thesis by simp
qed

subsection \<open>C3: nothing is written for an empty collection\<close>

text \<open>
  C3: if the collected results list is empty when \<open>save_to_csv\<close> is called, it
  returns without attempting any file write. The only effect is the printed
  warning: \<open>to_csv\<close> is not called and the files are as they were.
\<close>

theorem no_results_no_write:
  assumes "results self = []"
  shows "save_to_csv file_name self w = (None, self, w\<lparr>trace := trace w @ [Print Warning_No_results]\<rparr>)"
  using assms by (simp add: save_to_csv_def emit_def)

theorem no_results_no_write_witness:
  "results (example_scraper []) = [] \<and>
   save_to_csv ''google_search_results.csv'' (example_scraper []) fresh =
     (None, example_scraper [], fresh\<lparr>trace := [Print Warning_No_results]\<rparr>) \<and>
   files (fresh\<lparr>trace := [Print Warning_No_results]\<rparr>) ''google_search_results.csv'' = None"
proof -
  have empty: "results (example_scraper []) = []"
    by (simp add: example_defs)
  have "trace fresh = []" "files fresh ''google_search_results.csv'' = None"
    by (simp_all add: fresh_def)
  with empty no_results_no_write [OF empty, of "''google_search_results.csv''" fresh]
  show ?thesis by simp
qed

subsection \<open>C4: an invalid scroll count becomes 2\<close>

lemma py_int_raises_ValueError: "py_int n s = Inl e \<Longrightarrow> e = ValueError"
  by (auto simp: py_int_def Let_def split: option.splits if_splits)

text \<open>
  A no-break space is white space for \<open>str.strip()\<close> and for \<open>int\<close> alike.
\<close>

lemma no_break_space_line:
  "py_int 4300 [CHR 0xA0, CHR ''5''] = Inr 5 \<and>
   fst (read_num_scrolls 4300 [CHR 0xA0, CHR ''5''] fresh) = Inr 5"
  by (simp add: read_num_scrolls_def py_int_def strip_def isspace_def int_space_def unsigned_def
      isdigit_def digit_value_def)

text \<open>
  C4 as stated: for every scroll-count input string that does not parse as an
  integer, the entry point sets the scroll count to 2 and does not raise.

  The script does not hand the line to \<open>int\<close>: it strips it with
  \<open>str.strip()\<close> first, and \<open>str.strip()\<close> removes the separators 28 to 31,
  which \<open>int\<close> does not skip. What holds: whenever the line as stripped by
  \<open>str.strip()\<close> does not parse as an integer (\<open>int\<close> raises on it, as it does
  on the empty string), the scroll count is 2 and nothing is raised.
\<close>

theorem invalid_scrolls_default_to_2:
  assumes "py_int max_digits (strip line) = Inl e"
  shows "fst (read_num_scrolls max_digits line w) = Inr 2"
proof (cases "strip line = []")
  case True
  then show ?thesis by (simp add: read_num_scrolls_def)
next
  case False
  from assms have "py_int max_digits (strip line) = Inl ValueError"
    using py_int_raises_ValueError [OF assms] by simp
  with False show ?thesis by (simp add: read_num_scrolls_def)
qed

theorem invalid_scrolls_default_to_2_witness:
  "py_int 4300 (strip '' two '') = Inl ValueError \<and> fst (read_num_scrolls 4300 '' two '' fresh) = Inr 2 \<and>
   py_int 4300 (strip ''1__0'') = Inl ValueError \<and> fst (read_num_scrolls 4300 ''1__0'' fresh) = Inr 2 \<and>
   py_int 4300 (strip ''   '') = Inl ValueError \<and> fst (read_num_scrolls 4300 ''   '' fresh) = Inr 2"
proof -
  have a: "py_int 4300 (strip '' two '') = Inl ValueError"
    by (simp add: py_int_def strip_def isspace_def int_space_def unsigned_def isdigit_def)
  have b: "py_int 4300 (strip ''1__0'') = Inl ValueError"
    by (simp add: py_int_def strip_def isspace_def int_space_def unsigned_def isdigit_def
        digit_value_def)
  have c: "py_int 4300 (strip ''   '') = Inl ValueError"
    by (simp add: py_int_def strip_def isspace_def int_space_def unsigned_def)
  from a b c
    invalid_scrolls_default_to_2 [OF a, of fresh]
    invalid_scrolls_default_to_2 [OF b, of fresh]
    invalid_scrolls_default_to_2 [OF c, of fresh]
  show ?thesis by simp
qed

text \<open>
  C4 fails as stated on the line made of the control character 28 (file
  separator) and the digit 5: \<open>int\<close> raises on that line, so it does not parse
  as an integer, yet the script strips the control character and sets the scroll
  count to 5.
\<close>

theorem separator_line_read_as_5:
  "py_int 4300 [CHR 0x1C, CHR ''5''] = Inl ValueError \<and>
   fst (read_num_scrolls 4300 [CHR 0x1C, CHR ''5''] fresh) = Inr 5"
  by (simp add: read_num_scrolls_def py_int_def strip_def isspace_def int_space_def unsigned_def
      isdigit_def digit_value_def)

subsection \<open>C5: header and rows of the written file\<close>

lemma save_to_csv_written:
  assumes "results self \<noteq> []" and "open_error w file_name = None"
  shows "save_to_csv file_name self w =
     (None, self,
      w\<lparr>trace := trace w @ [To_csv file_name, Print (Info_Saved file_name)],
        files := (files w)(file_name \<mapsto>
          ''Title,URL,Description'' # map (\<lambda>r. csv_row [Title r, URL r, Description r]) (results self))\<rparr>)"
  using assms
  by (simp add: save_to_csv_def to_csv_def DataFrame_def emit_def header_row Let_def comp_def)

text \<open>
  C5: whenever at least one record has been collected, the file written by
  \<open>save_to_csv\<close> begins with the header row \<open>Title,URL,Description\<close> and its
  number of data rows equals the number of collected records. The file is written
  when the path opens.
\<close>

theorem csv_header_and_rows:
  assumes "results self \<noteq> []" and "open_error w file_name = None"
  shows "\<exists>rows.
     files (snd (snd (save_to_csv file_name self w))) file_name = Some (''Title,URL,Description'' # rows) \<and>
     length rows = length (results self) \<and>
     rows = map (\<lambda>r. csv_row [Title r, URL r, Description r]) (results self)"
  using save_to_csv_written [OF assms] by simp

theorem csv_header_and_rows_witness:
  "results saved_scraper \<noteq> [] \<and> open_error fresh ''google_search_results.csv'' = None \<and>
   (\<exists>rows.
     files (snd (snd (save_to_csv ''google_search_results.csv'' saved_scraper fresh)))
       ''google_search_results.csv'' = Some (''Title,URL,Description'' # rows) \<and>
     length rows = 1)"
proof -
  have filled: "results saved_scraper \<noteq> []"
    by (simp add: saved_scraper_def)
  have opens: "open_error fresh ''google_search_results.csv'' = None"
    by (simp add: fresh_def)
  have "length (results saved_scraper) = 1"
    by (simp add: saved_scraper_def)
  with filled opens csv_header_and_rows [OF filled opens] show ?thesis
    by auto
qed

subsection \<open>C6: records in page order\<close>

text \<open>
  C6: the collected records form an ordered sequence whose order is the order in
  which the qualifying containers are encountered on the page. When the page loads,
  every scroll succeeds and the page has the containers \<open>cs\<close>, scrape appends to
  the collection the records of the containers of \<open>cs\<close> that yield one, in the
  order of \<open>cs\<close>, up to the first container that ends the loop.
\<close>

theorem scrape_results_in_page_order:
  assumes loads: "get (driver self) (''https://www.google.com/search?q='' @ query self) = None"
    and scrolls: "\<forall>i < nat (num_scrolls self).
                    find_body (driver self) i = None \<and> send_keys_END (driver self) i = None"
    and found: "find_elements (driver self) ''div.g'' = Inr cs"
  shows "results (fst (snd (scrape self w))) =
           results self @ List.map_filter record_of (takeWhile (\<lambda>c. \<not> aborts c) cs)"
proof -
  let ?w1 = "emit (Get (search_url (query self))) (emit (Print Info_Starting) w)"
  from scrolls have "fst (scroll (driver self) [0..<nat (num_scrolls self)] ?w1) = None"
    by (intro scroll_succeeds) simp
  then obtain w2 where "scroll (driver self) [0..<nat (num_scrolls self)] ?w1 = (None, w2)"
    by (cases "scroll (driver self) [0..<nat (num_scrolls self)] ?w1") auto
  with loads found have
    "scrape_body self (emit (Print Info_Starting) w) =
       scan cs self (emit (Print (Info_Found (length cs))) w2)"
    by (simp add: scrape_body_def search_url_def)
  then have "results (fst (snd (scrape self w))) =
       results (fst (snd (scan cs self (emit (Print (Info_Found (length cs))) w2))))"
    by (simp add: scrape_def split: prod.splits)
  then show ?thesis
    by (simp only: scan_results)
qed

theorem scrape_results_in_page_order_witness:
  "results (fst (snd (scrape (example_scraper [isabelle_result, no_snippet, full_result, stale, full_result]) fresh))) =
     [isabelle_record, example_record]"
proof -
  let ?cs = "[isabelle_result, no_snippet, full_result, stale, full_result]"
  have loads: "get (driver (example_scraper ?cs)) (''https://www.google.com/search?q='' @ query (example_scraper ?cs)) = None"
    by (simp add: example_defs)
  have scrolls: "\<forall>i < nat (num_scrolls (example_scraper ?cs)).
      find_body (driver (example_scraper ?cs)) i = None \<and> send_keys_END (driver (example_scraper ?cs)) i = None"
    by (simp add: example_defs)
  have found: "find_elements (driver (example_scraper ?cs)) ''div.g'' = Inr ?cs"
    by (simp add: example_defs)
  have "results (example_scraper ?cs) @ List.map_filter record_of (takeWhile (\<lambda>c. \<not> aborts c) ?cs) =
      [isabelle_record, example_record]"
    by (simp add: record_of_def aborts_def read_result_def example_defs stale_def isabelle_result_def
        isabelle_record_def)
  with scrape_results_in_page_order [OF loads scrolls found, of fresh] show ?thesis
    by simp
qed

subsection \<open>C7: the driver session always ends\<close>

text \<open>
  C7: for every execution of scrape, whether it completes normally or an error
  occurs at any point (page load, missing body, extraction), the driver session is
  terminated before scrape returns and scrape lets no exception through. The
  events scrape adds end with the one \<open>Quit\<close> and the closing line.
\<close>

theorem scrape_always_quits:
  "fst (scrape self w) = None \<and>
   (\<exists>evs. trace (snd (snd (scrape self w))) = trace w @ evs @ [Quit, Print Info_Completed] \<and>
          Quit \<notin> set evs)"
proof -
  have "fst (scrape self w) = None"
    by (simp add: scrape_def split: prod.splits)
  moreover from scrape_trace [of self w] obtain evs where
    "trace (snd (snd (scrape self w))) =
       trace w @ (Print Info_Starting # Get (search_url (query self)) # evs) @ [Quit, Print Info_Completed]"
    "Quit \<notin> set (Print Info_Starting # Get (search_url (query self)) # evs)"
    by auto
  ultimately show ?thesis by blast
qed

theorem scrape_always_quits_witness:
  "fst (scrape (example_scraper [stale]) fresh) = None \<and>
   trace (snd (snd (scrape (example_scraper [stale]) fresh))) =
     [Print Info_Starting, Get ''https://www.google.com/search?q=a b&c#d'', Send_keys_END, Send_keys_END,
      Print (Info_Found 1), Print (Error_Scraping WebDriverException), Quit, Print Info_Completed]"
proof -
  have "trace (snd (snd (scrape (example_scraper [stale]) fresh))) =
     [Print Info_Starting, Get ''https://www.google.com/search?q=a b&c#d'', Send_keys_END, Send_keys_END,
      Print (Info_Found 1), Print (Error_Scraping WebDriverException), Quit, Print Info_Completed]"
    by (simp add: scrape_def scrape_body_def search_url_def scan_one_def read_result_def
        example_defs stale_def upt_rec numeral_2_eq_2)
  with scrape_always_quits [of "example_scraper [stale]" fresh] show ?thesis
    by simp
qed

subsection \<open>C8: a failed write is caught\<close>

text \<open>
  C8: for every non-empty results collection, if the file write inside
  \<open>save_to_csv\<close> fails, \<open>save_to_csv\<close> catches the failure, prints it and
  returns normally, and the scraper object, with its collection, is unchanged.
\<close>

theorem save_failure_is_caught:
  assumes "results self \<noteq> []" and "open_error w file_name = Some e"
  shows "save_to_csv file_name self w =
     (None, self, w\<lparr>trace := trace w @ [To_csv file_name, Print (Error_Save e)]\<rparr>)"
  using assms by (simp add: save_to_csv_def to_csv_def emit_def Let_def)

theorem save_failure_is_caught_witness:
  "results saved_scraper \<noteq> [] \<and> open_error read_only ''google_search_results.csv'' = Some OSError \<and>
   save_to_csv ''google_search_results.csv'' saved_scraper read_only =
     (None, saved_scraper,
      read_only\<lparr>trace := [To_csv ''google_search_results.csv'', Print (Error_Save OSError)]\<rparr>)"
proof -
  have filled: "results saved_scraper \<noteq> []"
    by (simp add: saved_scraper_def)
  have fails: "open_error read_only ''google_search_results.csv'' = Some OSError"
    by (simp add: read_only_def)
  have "trace read_only = []"
    by (simp add: read_only_def)
  with filled fails save_failure_is_caught [OF filled fails] show ?thesis
    by simp
qed

subsection \<open>C9: the collection after the write\<close>

text \<open>
  C9 as stated: after the records are written to the output file by
  \<open>save_to_csv\<close>, the in-memory collection is discarded and the scraper no
  longer retains the records.

  \<open>save_to_csv\<close> never assigns to \<open>self.results\<close>. What holds: in every case
  it leaves the scraper object, and so the collection, as it was; the records go
  only when the process ends.
\<close>

theorem save_keeps_results:
  "fst (snd (save_to_csv file_name self w)) = self \<and>
   results (fst (snd (save_to_csv file_name self w))) = results self"
  by (simp add: save_to_csv_def split: prod.splits option.splits)

theorem save_keeps_results_witness:
  "results (fst (snd (save_to_csv ''google_search_results.csv'' saved_scraper fresh))) = [example_record]"
  using save_keeps_results [of "''google_search_results.csv''" saved_scraper fresh]
  by (simp add: saved_scraper_def)

text \<open>
  C9 fails as stated on a scraper holding one record: the file is written with
  the header and the row, and the scraper still holds the record.
\<close>

theorem records_retained_after_write:
  "files (snd (snd (save_to_csv ''google_search_results.csv'' saved_scraper fresh)))
     ''google_search_results.csv'' =
     Some [''Title,URL,Description'',
           csv_row [''Example Domain'', ''https://example.com/'', ''An example, with a comma'']] \<and>
   results (fst (snd (save_to_csv ''google_search_results.csv'' saved_scraper fresh))) = [example_record] \<and>
   [example_record] \<noteq> []"
  by (simp add: save_to_csv_def to_csv_def DataFrame_def emit_def header_row Let_def
      saved_scraper_def fresh_def example_record_def)

subsection \<open>C10: the URL is the literal concatenation\<close>

text \<open>
  C10: for every query string, whatever characters it holds, the URL scrape
  navigates to is the concatenation of \<open>https://www.google.com/search?q=\<close> and
  the query, with no escaping. It is the only navigation scrape makes.
\<close>

theorem scrape_navigates_to_literal_url:
  "navigations (trace (snd (snd (scrape self w)))) =
     navigations (trace w) @ [''https://www.google.com/search?q='' @ query self]"
proof -
  from scrape_trace [of self w] obtain evs where
    "trace (snd (snd (scrape self w))) =
       trace w @ Print Info_Starting # Get (search_url (query self)) # evs @ [Quit, Print Info_Completed]"
    "navigations evs = []"
    by auto
  then show ?thesis
    by (simp add: navigations_append search_url_def)
qed

theorem scrape_navigates_to_literal_url_witness:
  "navigations (trace (snd (snd (scrape (example_scraper []) fresh)))) =
     [''https://www.google.com/search?q=a b&c#d'']"
  using scrape_navigates_to_literal_url [of "example_scraper []" fresh]
  by (simp add: example_defs)

end
